theory Spec2Isabelle
  imports Complex_Main "HOL-Library.Multiset" "HOL-Library.Char_ord" "HOL-Library.List_Lexorder"
begin

section \<open>Python values and exceptions\<close>

text \<open>
  The program is \<^verbatim>\<open>extract_keywords.py\<close>. Python strings are modelled as
  \<^typ>\<open>string\<close>, one \<^typ>\<open>char\<close> per code point, so the model covers the strings
  whose code points are below 256. An exception that leaves a function is the
  \<open>Inl\<close> branch of its result.
\<close>

datatype py_error = IndexError | KeyError | ValueError | UnboundLocalError | SystemExit

subsection \<open>String methods used by the program\<close>

text \<open>\<^verbatim>\<open>s.startswith(p)\<close>\<close>

definition startswith :: "string \<Rightarrow> string \<Rightarrow> bool" where
  "startswith s p = (take (length p) s = p)"

text \<open>\<^verbatim>\<open>s.split(sep)\<close> for a separator of one character: never the empty list.\<close>

fun split_chr :: "char \<Rightarrow> string \<Rightarrow> string list" where
  "split_chr c [] = [[]]"
| "split_chr c (x # xs) =
     (if x = c then [] # split_chr c xs
      else (case split_chr c xs of
              [] \<Rightarrow> [[x]]
            | y # ys \<Rightarrow> (x # y) # ys))"

text \<open>\<^verbatim>\<open>sep.join(parts)\<close>\<close>

fun join :: "string \<Rightarrow> string list \<Rightarrow> string" where
  "join sep [] = []"
| "join sep [p] = p"
| "join sep (p # q # ps) = p @ sep @ join sep (q # ps)"

text \<open>\<^verbatim>\<open>xs[i]\<close> for a list: a negative index counts from the end, an index out of
  range raises IndexError.\<close>

definition py_index :: "'a list \<Rightarrow> int \<Rightarrow> py_error + 'a" where
  "py_index xs i =
     (if 0 \<le> i
      then (if nat i < length xs then Inr (xs ! nat i) else Inl IndexError)
      else (if nat (- i) \<le> length xs then Inr (xs ! (length xs - nat (- i)))
            else Inl IndexError))"

text \<open>\<^verbatim>\<open>xs[lo:hi]\<close>: negative bounds count from the end, and both bounds are clamped
  to the list, so a slice never raises.\<close>

definition clamp_bound :: "nat \<Rightarrow> int \<Rightarrow> nat" where
  "clamp_bound n i = (if i < 0 then nat (max 0 (int n + i)) else min n (nat i))"

definition py_slice :: "'a list \<Rightarrow> int \<Rightarrow> int \<Rightarrow> 'a list" where
  "py_slice xs lo hi =
     (let n = length xs; a = clamp_bound n lo; b = clamp_bound n hi
      in drop a (take b xs))"

text \<open>\<^verbatim>\<open>str.isspace\<close> on one character (code points below 256), and \<^verbatim>\<open>s.strip()\<close>.\<close>

definition is_space :: "char \<Rightarrow> bool" where
  "is_space c = (let k = (of_char c :: nat)
                 in (9 \<le> k \<and> k \<le> 13) \<or> (28 \<le> k \<and> k \<le> 32) \<or> k = 133 \<or> k = 160)"

definition strip :: "string \<Rightarrow> string" where
  "strip s = rev (dropWhile is_space (rev (dropWhile is_space s)))"

text \<open>\<^verbatim>\<open>s.replace(",", ".")\<close>: both strings have one character.\<close>

definition replace_chr :: "char \<Rightarrow> char \<Rightarrow> string \<Rightarrow> string" where
  "replace_chr a b s = map (\<lambda>c. if c = a then b else c) s"

section \<open>Cluster Classifier\<close>

text \<open>
  \<^verbatim>\<open>
  def get_cluster(topic: str) -> str:
      if topic.startswith("HORIZON"):
          return "HORIZON-" + topic.split("-")[1]
      elif topic.startswith("ERC"):
          return "ERC-" + topic.split("-")[2]
      elif topic.startswith("EURATOM"):
          return "EURATOM-" + "-".join(topic.split("-")[2:-1])
      return topic
  \<close>
\<close>

definition get_cluster :: "string \<Rightarrow> py_error + string" where
  "get_cluster topic =
     (if startswith topic ''HORIZON'' then
        (case py_index (split_chr CHR ''-'' topic) 1 of
           Inl e \<Rightarrow> Inl e
         | Inr seg \<Rightarrow> Inr (''HORIZON-'' @ seg))
      else if startswith topic ''ERC'' then
        (case py_index (split_chr CHR ''-'' topic) 2 of
           Inl e \<Rightarrow> Inl e
         | Inr seg \<Rightarrow> Inr (''ERC-'' @ seg))
      else if startswith topic ''EURATOM'' then
        Inr (''EURATOM-'' @ join ''-'' (py_slice (split_chr CHR ''-'' topic) 2 (- 1)))
      else Inr topic)"

section \<open>Value Normalizer\<close>

subsection \<open>The built-in \<^verbatim>\<open>float\<close> on a string\<close>

text \<open>
  A Python float is modelled by the exact decimal value of its literal: rounding to
  binary64, overflow to infinity and the sign of zero are not modelled.
\<close>

datatype pyfloat = Finite rat | PosInf | NegInf | NaN

definition is_digit :: "char \<Rightarrow> bool" where
  "is_digit c = (c \<in> set ''0123456789'')"

definition digit_val :: "char \<Rightarrow> nat" where
  "digit_val c = of_char c - 48"

definition nat_of_digits :: "string \<Rightarrow> nat" where
  "nat_of_digits ds = foldl (\<lambda>a c. 10 * a + digit_val c) 0 ds"

text \<open>The whitespace \<^verbatim>\<open>float\<close> strips: tab to carriage return, space, and the two
  non-ASCII spaces below 256 (which it first turns into spaces).\<close>

definition float_space :: "char \<Rightarrow> bool" where
  "float_space c = (let k = (of_char c :: nat)
                    in (9 \<le> k \<and> k \<le> 13) \<or> k = 32 \<or> k = 133 \<or> k = 160)"

text \<open>An underscore is allowed only between two digits.\<close>

fun underscores_ok :: "char option \<Rightarrow> string \<Rightarrow> bool" where
  "underscores_ok prev [] = (prev \<noteq> Some CHR ''_'')"
| "underscores_ok prev (c # cs) =
     (if c = CHR ''_''
      then (case prev of None \<Rightarrow> False | Some p \<Rightarrow> is_digit p \<and> underscores_ok (Some c) cs)
      else if prev = Some CHR ''_'' then is_digit c \<and> underscores_ok (Some c) cs
      else underscores_ok (Some c) cs)"

definition to_lower :: "char \<Rightarrow> char" where
  "to_lower c = (let k = (of_char c :: nat) in if 65 \<le> k \<and> k \<le> 90 then char_of (k + 32) else c)"

definition split_sign :: "string \<Rightarrow> bool \<times> string" where
  "split_sign s =
     (case s of
        [] \<Rightarrow> (False, [])
      | c # r \<Rightarrow> if c = CHR ''-'' then (True, r) else if c = CHR ''+'' then (False, r) else (False, s))"

definition scale10 :: "rat \<Rightarrow> int \<Rightarrow> rat" where
  "scale10 x e = (if 0 \<le> e then x * 10 ^ nat e else x / 10 ^ nat (- e))"

text \<open>The exponent part: nothing, or \<^verbatim>\<open>e\<close>/\<^verbatim>\<open>E\<close>, an optional sign and at least one digit.\<close>

definition parse_exponent :: "string \<Rightarrow> int option" where
  "parse_exponent s =
     (case s of
        [] \<Rightarrow> Some 0
      | c # r \<Rightarrow>
          if c = CHR ''e'' \<or> c = CHR ''E'' then
            (let (neg, ds) = split_sign r
             in if ds \<noteq> [] \<and> list_all is_digit ds
                then Some (if neg then - int (nat_of_digits ds) else int (nat_of_digits ds))
                else None)
          else None)"

text \<open>The grammar of \<^verbatim>\<open>float\<close> after stripping: a sign, then \<^verbatim>\<open>inf\<close>, \<^verbatim>\<open>infinity\<close> or
  \<^verbatim>\<open>nan\<close> in any case, or digits with an optional point and exponent, with a digit
  before or after the point. The whole string must be consumed.\<close>

definition parse_number :: "string \<Rightarrow> pyfloat option" where
  "parse_number s =
     (let (neg, body) = split_sign s; low = map to_lower body
      in if low = ''inf'' \<or> low = ''infinity'' then Some (if neg then NegInf else PosInf)
         else if low = ''nan'' then Some NaN
         else
           (let ip = takeWhile is_digit body; r1 = dropWhile is_digit body;
                (fp, r2) = (case r1 of
                              [] \<Rightarrow> ([], [])
                            | c # r \<Rightarrow> if c = CHR ''.''
                                       then (takeWhile is_digit r, dropWhile is_digit r)
                                       else ([], r1))
            in if ip = [] \<and> fp = [] then None
               else (case parse_exponent r2 of
                       None \<Rightarrow> None
                     | Some e \<Rightarrow>
                         let m = rat_of_nat (nat_of_digits (ip @ fp));
                             v = scale10 m (e - int (length fp))
                         in Some (Finite (if neg then - v else v)))))"

definition float_strip :: "string \<Rightarrow> string" where
  "float_strip s = rev (dropWhile float_space (rev (dropWhile float_space s)))"

text \<open>\<^verbatim>\<open>float(s)\<close> for a string: the value, or ValueError.\<close>

definition py_float :: "string \<Rightarrow> py_error + pyfloat" where
  "py_float s =
     (if underscores_ok None s
      then (case parse_number (float_strip (filter (\<lambda>c. c \<noteq> CHR ''_'') s)) of
              None \<Rightarrow> Inl ValueError
            | Some f \<Rightarrow> Inr f)
      else Inl ValueError)"

subsection \<open>\<^verbatim>\<open>str\<close> of an integer\<close>

function digits_of_nat :: "nat \<Rightarrow> string" where
  "digits_of_nat n =
     (if n < 10 then [''0123456789'' ! n]
      else digits_of_nat (n div 10) @ [''0123456789'' ! (n mod 10)])"
  by pat_completeness auto
termination
  by (relation "measure (\<lambda>n. n)") auto

definition str_of_int :: "int \<Rightarrow> string" where
  "str_of_int i = (if i < 0 then CHR ''-'' # digits_of_nat (nat (- i)) else digits_of_nat (nat i))"

subsection \<open>The normalizer\<close>

text \<open>
  A cell of the contribution column: missing (NaN, what \<^verbatim>\<open>pd.isna\<close> accepts), a
  string or an integer, as the annotation \<^verbatim>\<open>str | int\<close> says. A cell that is already
  a float other than NaN is not modelled: its \<^verbatim>\<open>str\<close> is the shortest round-trip
  representation of binary64.
\<close>

datatype cell = Missing | Text string | Whole int

datatype py_val = PNone | PStr string | PInt int | PFloat pyfloat | PList "string list"

definition isna :: "cell \<Rightarrow> bool" where
  "isna val = (case val of Missing \<Rightarrow> True | _ \<Rightarrow> False)"

definition py_str :: "cell \<Rightarrow> string" where
  "py_str val = (case val of Missing \<Rightarrow> ''nan'' | Text s \<Rightarrow> s | Whole i \<Rightarrow> str_of_int i)"

definition as_val :: "cell \<Rightarrow> py_val" where
  "as_val val = (case val of Missing \<Rightarrow> PNone | Text s \<Rightarrow> PStr s | Whole i \<Rightarrow> PInt i)"

text \<open>
  \<^verbatim>\<open>
  def convert_to_float(val: str | int) -> float | str | None:
      if pd.isna(val):
          return None
      try:
          return float(str(val).replace(",", "."))
      except ValueError:
          return val
  \<close>
\<close>

definition convert_to_float :: "cell \<Rightarrow> py_error + py_val" where
  "convert_to_float val =
     (if isna val then Inr PNone
      else (case py_float (replace_chr CHR '','' CHR ''.'' (py_str val)) of
              Inr f \<Rightarrow> Inr (PFloat f)
            | Inl e \<Rightarrow> (case e of ValueError \<Rightarrow> Inr (as_val val) | _ \<Rightarrow> Inl e)))"

section \<open>Local Keyword Aggregator\<close>

text \<open>
  The keyword table \<^verbatim>\<open>euroscivoc_df\<close>, as the rows of its two columns
  \<^verbatim>\<open>projectID\<close> and \<^verbatim>\<open>euroSciVocTitle\<close>, in file order.
  \<^verbatim>\<open>
  def get_euroscivoc_keywords(project_id, euroscivoc_df):
      return euroscivoc_df.loc[euroscivoc_df["projectID"] == project_id]["euroSciVocTitle"].tolist()
  \<close>
\<close>

type_synonym keyword_entry = "string \<times> string"

definition get_euroscivoc_keywords :: "string \<Rightarrow> keyword_entry list \<Rightarrow> string list" where
  "get_euroscivoc_keywords project_id euroscivoc_df =
     map snd (filter (\<lambda>entry. fst entry = project_id) euroscivoc_df)"

text \<open>
  \<^verbatim>\<open>euroscivoc_df.groupby("projectID")["euroSciVocTitle"].apply(list).reset_index(...)\<close>:
  one row per distinct identifier, the rows in the order of their keys, each holding
  the titles of its entries in file order.
\<close>

definition groupby_keywords :: "keyword_entry list \<Rightarrow> (string \<times> string list) list" where
  "groupby_keywords euroscivoc_df =
     map (\<lambda>k. (k, map snd (filter (\<lambda>entry. fst entry = k) euroscivoc_df)))
         (sort (remdups (map fst euroscivoc_df)))"

section \<open>Remote Keyword Fetcher\<close>

text \<open>
  What \<^verbatim>\<open>BeautifulSoup(res.text, "html.parser")\<close> yields is modelled as the tags of the
  page in document order, each with its name and its attribute dictionary. A response
  is its status code and its page. An attempt of \<^verbatim>\<open>requests.get\<close> raises or returns a
  response.
\<close>

record element =
  tag :: string
  attrs :: "string \<rightharpoonup> string"

record response =
  status_code :: int
  page :: "element list"

datatype attempt = Raises | Returns response

text \<open>\<^verbatim>\<open>Response.ok\<close> of the requests library: \<^verbatim>\<open>raise_for_status()\<close> raises for a
  status from 400 to 599 and for no other.\<close>

definition ok :: "response \<Rightarrow> bool" where
  "ok res = (\<not> (400 \<le> status_code res \<and> status_code res < 600))"

text \<open>\<^verbatim>\<open>soup.find("meta", attrs={"name": "keywords"})\<close>: the first such tag, or None.\<close>

definition find_keywords_meta :: "element list \<Rightarrow> element option" where
  "find_keywords_meta soup =
     List.find (\<lambda>el. tag el = ''meta'' \<and> attrs el ''name'' = Some ''keywords'') soup"

text \<open>
  \<^verbatim>\<open>set([kw.strip() for kw in content.split(",") if (kw != "" and not kw.startswith("HORIZON"))])\<close>
  and then \<^verbatim>\<open>list(keywords)\<close>. The order in which Python lists a set is not
  specified; the model lists each element once, in one fixed order, and the
  theorems speak of the elements only.
\<close>

definition parse_keywords :: "string \<Rightarrow> string list" where
  "parse_keywords content =
     remdups (map strip
       (filter (\<lambda>kw. kw \<noteq> [] \<and> \<not> startswith kw ''HORIZON'') (split_chr CHR '','' content)))"

text \<open>
  The loop \<^verbatim>\<open>for _ in range(3)\<close>. The network is the outcome of the i-th call of
  \<^verbatim>\<open>requests.get\<close> for this URL. The loop returns the last \<^verbatim>\<open>res\<close> (None while
  unbound) and the number of calls made.
  \<^verbatim>\<open>
      for _ in range(3):
          try:
              res = requests.get(url, timeout=10)
          except Exception:
              res = requests.Response()
              res.status_code = 408
          if res.ok:
              break
  \<close>
\<close>

definition attempt_response :: "attempt \<Rightarrow> response" where
  "attempt_response a =
     (case a of Raises \<Rightarrow> \<lparr>status_code = 408, page = []\<rparr> | Returns res \<Rightarrow> res)"

fun request_loop :: "(nat \<Rightarrow> attempt) \<Rightarrow> nat \<Rightarrow> nat \<Rightarrow> response option \<Rightarrow> response option \<times> nat" where
  "request_loop net i 0 res = (res, i)"
| "request_loop net i (Suc k) res =
     (let res' = attempt_response (net i)
      in if ok res' then (Some res', Suc i) else request_loop net (Suc i) k (Some res'))"

text \<open>
  \<^verbatim>\<open>
      if not res.ok:
          return "ERROR"
      soup = BeautifulSoup(res.text, "html.parser")
      keywords_soup = soup.find("meta", attrs={"name": "keywords"})
      if keywords_soup is None:
          return "NOT FOUND"
      keywords = set([... keywords_soup["content"].split(",") ...])
      return list(keywords)
  \<close>
  \<^verbatim>\<open>keywords_soup["content"]\<close> raises KeyError when the tag has no such attribute.
\<close>

definition after_loop :: "response option \<Rightarrow> py_error + py_val" where
  "after_loop r =
     (case r of
        None \<Rightarrow> Inl UnboundLocalError
      | Some res \<Rightarrow>
          if \<not> ok res then Inr (PStr ''ERROR'')
          else (case find_keywords_meta (page res) of
                  None \<Rightarrow> Inr (PStr ''NOT FOUND'')
                | Some keywords_soup \<Rightarrow>
                    (case attrs keywords_soup ''content'' of
                       None \<Rightarrow> Inl KeyError
                     | Some content \<Rightarrow> Inr (PList (parse_keywords content)))))"

text \<open>The result of \<^verbatim>\<open>get_cordis_keywords\<close>, and the number of requests it made.\<close>

definition get_cordis_keywords :: "(nat \<Rightarrow> attempt) \<Rightarrow> (py_error + py_val) \<times> nat" where
  "get_cordis_keywords net =
     (let (res, calls) = request_loop net 0 3 None in (after_loop res, calls))"

text \<open>An attempt fails when it raises or its response is not \<^verbatim>\<open>ok\<close>.\<close>

definition failed :: "attempt \<Rightarrow> bool" where
  "failed a = (\<not> ok (attempt_response a))"

text \<open>A status of the 2xx class.\<close>

definition is_2xx :: "int \<Rightarrow> bool" where
  "is_2xx st = (200 \<le> st \<and> st < 300)"

section \<open>Enrichment Orchestrator\<close>

text \<open>
  The cluster option: \<^verbatim>\<open>"all"\<close>, or one digit from 1 to 6 per character.
  \<^verbatim>\<open>
      clusters = []
      if args.clusters == "all":
          clusters = "all"
      else:
          for c in args.clusters:
              try:
                  c = int(c)
                  if c < 1 or c > 6:
                      raise ValueError
                  clusters.append(f"CL{c}")
              except ValueError:
                  parser.error("--clusters/-c can only contain numbers 1-6")
  \<close>
\<close>

datatype cluster_filter = All | Only "string list"

fun cluster_codes :: "string \<Rightarrow> py_error + string list" where
  "cluster_codes [] = Inr []"
| "cluster_codes (c # cs) =
     (if c \<in> set ''123456''
      then (case cluster_codes cs of Inl e \<Rightarrow> Inl e | Inr cl \<Rightarrow> Inr ((''CL'' @ [c]) # cl))
      else Inl SystemExit)"

definition parse_clusters :: "string \<Rightarrow> py_error + cluster_filter" where
  "parse_clusters arg =
     (if arg = ''all'' then Inr All
      else (case cluster_codes arg of Inl e \<Rightarrow> Inl e | Inr cl \<Rightarrow> Inr (Only cl)))"

text \<open>
  A row of the project table after the unused columns are dropped, and a row of the
  table written out. \<^verbatim>\<open>euroscivoc_keywords\<close> is None where the left merge finds no
  group.
\<close>

record project_row =
  id' :: string
  topics :: string
  ecMaxContribution :: cell

record enriched_row =
  row_id :: string
  row_topics :: string
  row_contribution :: py_val
  cluster :: string
  euroscivoc_keywords :: "string list option"
  cordis_keywords :: py_val

text \<open>\<^verbatim>\<open>Series.apply\<close> with a function that may raise: the first exception ends it.\<close>

fun apply_rows :: "('a \<Rightarrow> py_error + 'b) \<Rightarrow> 'a list \<Rightarrow> py_error + 'b list" where
  "apply_rows f [] = Inr []"
| "apply_rows f (x # xs) =
     (case f x of
        Inl e \<Rightarrow> Inl e
      | Inr y \<Rightarrow> (case apply_rows f xs of Inl e \<Rightarrow> Inl e | Inr ys \<Rightarrow> Inr (y # ys)))"

text \<open>\<^verbatim>\<open>project_df.loc[project_df.cluster.isin(clusters)]\<close>, skipped for \<^verbatim>\<open>"all"\<close>.\<close>

definition filter_clusters :: "cluster_filter \<Rightarrow> (project_row \<times> py_val \<times> string) list
                                 \<Rightarrow> (project_row \<times> py_val \<times> string) list" where
  "filter_clusters clusters rows =
     (case clusters of
        All \<Rightarrow> rows
      | Only cl \<Rightarrow> filter (\<lambda>(r, contribution, c). c \<in> set cl) rows)"

text \<open>
  The main program from the conversion of the contribution column to the last
  column: the stages run one after the other over the whole table, and
  \<^verbatim>\<open>fetch\<close> stands for \<^verbatim>\<open>get_cordis_keywords\<close> on a row's identifier.
\<close>

definition enrich :: "cluster_filter \<Rightarrow> project_row list \<Rightarrow> keyword_entry list
                       \<Rightarrow> (string \<Rightarrow> py_error + py_val) \<Rightarrow> py_error + enriched_row list" where
  "enrich clusters project_df euroscivoc_df fetch =
     (case apply_rows (\<lambda>r. convert_to_float (ecMaxContribution r)) project_df of
        Inl e \<Rightarrow> Inl e
      | Inr contributions \<Rightarrow>
     (case apply_rows (\<lambda>r. get_cluster (topics r)) project_df of
        Inl e \<Rightarrow> Inl e
      | Inr cls \<Rightarrow>
     (let kept = filter_clusters clusters (zip project_df (zip contributions cls));
          groups = groupby_keywords euroscivoc_df
      in (case apply_rows (\<lambda>(r, contribution, c). fetch (id' r)) kept of
            Inl e \<Rightarrow> Inl e
          | Inr fetched \<Rightarrow>
              Inr (map (\<lambda>((r, contribution, c), kws).
                          \<lparr>row_id = id' r, row_topics = topics r,
                           row_contribution = contribution, cluster = c,
                           euroscivoc_keywords = map_of groups (id' r),
                           cordis_keywords = kws\<rparr>)
                       (zip kept fetched))))))"

section \<open>Inputs of the examples\<close>

text \<open>
  The end-to-end example of the specification: one project, one keyword entry, and a
  remote fetch replaced by a stub that returns one keyword for every identifier.
\<close>

definition example_project_df :: "project_row list" where
  "example_project_df =
     [\<lparr>id' = ''P1'', topics = ''HORIZON-CL1-01-02'', ecMaxContribution = Text ''1.234,56''\<rparr>]"

definition example_euroscivoc_df :: "keyword_entry list" where
  "example_euroscivoc_df = [(''P1'', ''Climate'')]"

definition example_fetch :: "string \<Rightarrow> py_error + py_val" where
  "example_fetch project_id = Inr (PList [''Adaptation''])"

text \<open>A registry that answers every request with the status 304 and an empty page.\<close>

definition not_modified_net :: "nat \<Rightarrow> attempt" where
  "not_modified_net i = Returns \<lparr>status_code = 304, page = []\<rparr>"

text \<open>A registry that answers every request with the status 200 and a page whose
  keywords are \<^verbatim>\<open>Health, HORIZON-test, AI, Health\<close>.\<close>

definition example_keywords_net :: "nat \<Rightarrow> attempt" where
  "example_keywords_net i =
     Returns \<lparr>status_code = 200,
              page = [\<lparr>tag = ''meta'',
                       attrs = [''name'' \<mapsto> ''keywords'',
                                ''content'' \<mapsto> ''Health, HORIZON-test, AI, Health'']\<rparr>]\<rparr>"

section \<open>Properties of the string methods\<close>

lemma split_chr_not_Nil: "split_chr c s \<noteq> []"
  by (induction s) (auto split: list.splits)

lemma split_chr_no_sep: "c \<notin> set a \<Longrightarrow> split_chr c a = [a]"
  by (induction a) auto

lemma split_chr_append: "c \<notin> set a \<Longrightarrow> split_chr c (a @ c # r) = a # split_chr c r"
  by (induction a) auto

lemma length_split_chr: "length (split_chr c s) = Suc (count_list s c)"
  by (induction s) (auto split: list.splits simp: split_chr_not_Nil)

lemma py_index_ok: "i < length xs \<Longrightarrow> py_index xs (int i) = Inr (xs ! i)"
  by (simp add: py_index_def)

lemma py_index_err: "length xs \<le> i \<Longrightarrow> py_index xs (int i) = Inl IndexError"
  by (simp add: py_index_def)




lemma startswith_both:
  assumes "startswith t p" "startswith t q" "length p \<le> length q"
  shows "take (length p) q = p"
proof -
  have "take (length p) q = take (length p) (take (length q) t)"
    using assms(2) by (simp add: startswith_def)
  also have "\<dots> = take (length p) t" using assms(3) by (simp add: min_def)
  finally show ?thesis using assms(1) by (simp add: startswith_def)
qed

lemma erc_not_horizon: "startswith t ''ERC'' \<Longrightarrow> \<not> startswith t ''HORIZON''"
  using startswith_both [of t "''ERC''" "''HORIZON''"] by auto



lemma startswith_horizon_form: "startswith (''HORIZON-'' @ r) ''HORIZON''"
  by (simp add: startswith_def)

lemma startswith_erc_form:
  "startswith (''ERC-'' @ r) ''ERC''" "\<not> startswith (''ERC-'' @ r) ''HORIZON''"
  by (simp_all add: startswith_def)

lemma split_horizon_form:
  assumes "CHR ''-'' \<notin> set xx"
  shows "split_chr CHR ''-'' (''HORIZON-'' @ xx @ ''-'' @ rest)
         = ''HORIZON'' # xx # split_chr CHR ''-'' rest"
proof -
  have "split_chr CHR ''-'' (''HORIZON'' @ CHR ''-'' # (xx @ CHR ''-'' # rest))
        = ''HORIZON'' # split_chr CHR ''-'' (xx @ CHR ''-'' # rest)"
    by (rule split_chr_append) simp
  also have "split_chr CHR ''-'' (xx @ CHR ''-'' # rest) = xx # split_chr CHR ''-'' rest"
    using assms by (rule split_chr_append)
  finally show ?thesis by simp
qed

lemma split_erc_form:
  assumes "CHR ''-'' \<notin> set xx" "CHR ''-'' \<notin> set yy"
  shows "split_chr CHR ''-'' (''ERC-'' @ xx @ ''-'' @ yy @ ''-'' @ rest)
         = ''ERC'' # xx # yy # split_chr CHR ''-'' rest"
proof -
  have "split_chr CHR ''-'' (''ERC'' @ CHR ''-'' # (xx @ CHR ''-'' # (yy @ CHR ''-'' # rest)))
        = ''ERC'' # split_chr CHR ''-'' (xx @ CHR ''-'' # (yy @ CHR ''-'' # rest))"
    by (rule split_chr_append) simp
  also have "split_chr CHR ''-'' (xx @ CHR ''-'' # (yy @ CHR ''-'' # rest))
             = xx # split_chr CHR ''-'' (yy @ CHR ''-'' # rest)"
    using assms(1) by (rule split_chr_append)
  also have "split_chr CHR ''-'' (yy @ CHR ''-'' # rest) = yy # split_chr CHR ''-'' rest"
    using assms(2) by (rule split_chr_append)
  finally show ?thesis by simp
qed

section \<open>Properties of the Cluster Classifier\<close>

text \<open>
  Claim C8. A topic that starts with \<^verbatim>\<open>HORIZON\<close> and has at least two segments between
  hyphens is classified as \<^verbatim>\<open>HORIZON-\<close> plus its second segment, so
  \<^verbatim>\<open>HORIZON-xx-...\<close> gives \<^verbatim>\<open>HORIZON-xx\<close>; a topic that starts with \<^verbatim>\<open>ERC\<close> and has at
  least three segments is classified as \<^verbatim>\<open>ERC-\<close> plus its third segment, so
  \<^verbatim>\<open>ERC-xx-yy-...\<close> gives \<^verbatim>\<open>ERC-yy\<close>.
\<close>

theorem get_cluster_horizon_erc:
  "(startswith t ''HORIZON'' \<and> 2 \<le> length (split_chr CHR ''-'' t)
      \<longrightarrow> get_cluster t = Inr (''HORIZON-'' @ split_chr CHR ''-'' t ! 1))
   \<and> (CHR ''-'' \<notin> set xx
      \<longrightarrow> get_cluster (''HORIZON-'' @ xx @ ''-'' @ rest) = Inr (''HORIZON-'' @ xx))
   \<and> (startswith t ''ERC'' \<and> 3 \<le> length (split_chr CHR ''-'' t)
      \<longrightarrow> get_cluster t = Inr (''ERC-'' @ split_chr CHR ''-'' t ! 2))
   \<and> (CHR ''-'' \<notin> set xx \<and> CHR ''-'' \<notin> set yy
      \<longrightarrow> get_cluster (''ERC-'' @ xx @ ''-'' @ yy @ ''-'' @ rest) = Inr (''ERC-'' @ yy))"
proof (intro conjI impI)
  assume a: "startswith t ''HORIZON'' \<and> 2 \<le> length (split_chr CHR ''-'' t)"
  then have "py_index (split_chr CHR ''-'' t) (int 1) = Inr (split_chr CHR ''-'' t ! 1)"
    by (intro py_index_ok) simp
  with a show "get_cluster t = Inr (''HORIZON-'' @ split_chr CHR ''-'' t ! 1)"
    by (simp add: get_cluster_def)
next
  assume a: "CHR ''-'' \<notin> set xx"
  have "py_index (split_chr CHR ''-'' (''HORIZON-'' @ xx @ ''-'' @ rest)) (int 1) = Inr xx"
    unfolding split_horizon_form [OF a] by (simp add: py_index_def)
  then show "get_cluster (''HORIZON-'' @ xx @ ''-'' @ rest) = Inr (''HORIZON-'' @ xx)"
    unfolding get_cluster_def using startswith_horizon_form [of "xx @ ''-'' @ rest"]
    by (simp del: append.simps)
next
  assume a: "startswith t ''ERC'' \<and> 3 \<le> length (split_chr CHR ''-'' t)"
  then have "py_index (split_chr CHR ''-'' t) (int 2) = Inr (split_chr CHR ''-'' t ! 2)"
    by (intro py_index_ok) simp
  with a erc_not_horizon [of t] show "get_cluster t = Inr (''ERC-'' @ split_chr CHR ''-'' t ! 2)"
    by (simp add: get_cluster_def)
next
  assume a: "CHR ''-'' \<notin> set xx \<and> CHR ''-'' \<notin> set yy"
  have "py_index (split_chr CHR ''-'' (''ERC-'' @ xx @ ''-'' @ yy @ ''-'' @ rest)) (int 2) = Inr yy"
    using a split_erc_form [of xx yy rest] by (simp add: py_index_def)
  then show "get_cluster (''ERC-'' @ xx @ ''-'' @ yy @ ''-'' @ rest) = Inr (''ERC-'' @ yy)"
    unfolding get_cluster_def
    using startswith_erc_form [of "xx @ ''-'' @ yy @ ''-'' @ rest"]
    by (simp del: append.simps)
qed

theorem get_cluster_horizon_erc_witness:
  "startswith ''HORIZON-CL1-01-02'' ''HORIZON''
   \<and> 2 \<le> length (split_chr CHR ''-'' ''HORIZON-CL1-01-02'')
   \<and> CHR ''-'' \<notin> set ''CL1''
   \<and> get_cluster (''HORIZON-'' @ ''CL1'' @ ''-'' @ ''01-02'') = Inr ''HORIZON-CL1''
   \<and> startswith ''ERC-2021-STG-01'' ''ERC''
   \<and> 3 \<le> length (split_chr CHR ''-'' ''ERC-2021-STG-01'')
   \<and> CHR ''-'' \<notin> set ''2021'' \<and> CHR ''-'' \<notin> set ''STG''
   \<and> get_cluster (''ERC-'' @ ''2021'' @ ''-'' @ ''STG'' @ ''-'' @ ''01'') = Inr ''ERC-STG''
   \<and> get_cluster ''ERC-2021-STG-01'' = Inr (''ERC-'' @ split_chr CHR ''-'' ''ERC-2021-STG-01'' ! 2)
   \<and> get_cluster ''HORIZON-CL1-01-02''
       = Inr (''HORIZON-'' @ split_chr CHR ''-'' ''HORIZON-CL1-01-02'' ! 1)"
  using get_cluster_horizon_erc [of "''HORIZON-CL1-01-02''" "''CL1''" "''01-02''" "''STG''"]
    get_cluster_horizon_erc [of "''ERC-2021-STG-01''" "''2021''" "''01''" "''STG''"]
  by (simp add: startswith_def)



text \<open>
  Claim C3, as amended. The classifier is a function of its argument alone. It returns
  a string unless the topic starts with \<^verbatim>\<open>HORIZON\<close> and has fewer than two segments,
  or starts with \<^verbatim>\<open>ERC\<close> and has fewer than three: exactly there it raises
  IndexError. A topic that starts with \<^verbatim>\<open>EURATOM\<close>, or with none of the three
  prefixes, never raises.
\<close>

theorem get_cluster_domain:
  "(get_cluster t = Inl IndexError \<or> (\<exists>s. get_cluster t = Inr s))
   \<and> (get_cluster t = Inl IndexError) =
       ((startswith t ''HORIZON'' \<and> length (split_chr CHR ''-'' t) < 2)
        \<or> (startswith t ''ERC'' \<and> length (split_chr CHR ''-'' t) < 3))"
proof -
  have i1: "py_index (split_chr CHR ''-'' t) 1 =
        (if length (split_chr CHR ''-'' t) < 2 then Inl IndexError else Inr (split_chr CHR ''-'' t ! 1))"
    by (auto simp: py_index_def)
  have i2: "py_index (split_chr CHR ''-'' t) 2 =
        (if length (split_chr CHR ''-'' t) < 3 then Inl IndexError else Inr (split_chr CHR ''-'' t ! 2))"
    by (auto simp: py_index_def)
  show ?thesis
    using erc_not_horizon [of t]
    by (auto simp: get_cluster_def i1 i2)
qed

theorem get_cluster_domain_witness:
  "(\<exists>s. get_cluster ''EURATOM'' = Inr s)
   \<and> get_cluster ''ERC'' = Inl IndexError
   \<and> (\<exists>s. get_cluster ''HORIZON-CL1-01'' = Inr s)"
  using get_cluster_domain [of "''ERC''"] get_cluster_domain [of "''HORIZON-CL1-01''"]
    get_cluster_domain [of "''EURATOM''"]
  by (auto simp: startswith_def)

text \<open>
  Claim C3, as stated, fails: the topic \<^verbatim>\<open>HORIZON\<close> has one segment, and the index 1
  is out of range.
\<close>

theorem get_cluster_total_counterexample:
  "get_cluster ''HORIZON'' = Inl IndexError"
  by (simp add: get_cluster_def startswith_def py_index_def)

section \<open>Properties of the Local Keyword Aggregator\<close>

lemma get_keywords_Cons:
  "mset (get_euroscivoc_keywords k (e # df)) =
     (if fst e = k then {#snd e#} else {#}) + mset (get_euroscivoc_keywords k df)"
  by (simp add: get_euroscivoc_keywords_def)

lemma sum_keywords:
  "finite K \<Longrightarrow> fst ` set df \<subseteq> K \<Longrightarrow>
     (\<Sum>k\<in>K. mset (get_euroscivoc_keywords k df)) = mset (map snd df)"
proof (induction df)
  case Nil
  then show ?case by (simp add: get_euroscivoc_keywords_def)
next
  case (Cons e df)
  then have mem: "fst e \<in> K" and sub: "fst ` set df \<subseteq> K" by auto
  have "(\<Sum>k\<in>K. mset (get_euroscivoc_keywords k (e # df)))
        = (\<Sum>k\<in>K. if fst e = k then {#snd e#} else {#})
          + (\<Sum>k\<in>K. mset (get_euroscivoc_keywords k df))"
    by (simp only: get_keywords_Cons sum.distrib)
  also have "(\<Sum>k\<in>K. if fst e = k then {#snd e#} else {#}) = {#snd e#}"
    using Cons.prems(1) mem by (simp add: sum.delta')
  also have "(\<Sum>k\<in>K. mset (get_euroscivoc_keywords k df)) = mset (map snd df)"
    using Cons.IH [OF Cons.prems(1) sub] .
  finally show ?case by simp
qed

lemma no_match_empty:
  "project_id \<notin> fst ` set df \<Longrightarrow> get_euroscivoc_keywords project_id df = []"
  by (induction df) (auto simp: get_euroscivoc_keywords_def)

lemma groupby_keys: "map fst (groupby_keywords df) = sort (remdups (map fst df))"
  by (simp add: groupby_keywords_def comp_def)

lemma groupby_lookup:
  "map_of (groupby_keywords df) k =
     (if k \<in> fst ` set df then Some (get_euroscivoc_keywords k df) else None)"
proof -
  have "map_of (map (\<lambda>k. (k, f k)) ks) k = (if k \<in> set ks then Some (f k) else None)" for f :: "string \<Rightarrow> string list" and ks
    by (induction ks) auto
  then show ?thesis
    by (simp add: groupby_keywords_def get_euroscivoc_keywords_def)
qed

lemma groupby_union:
  "mset (concat (map snd (groupby_keywords df))) = mset (map snd df)"
proof -
  let ?ks = "sort (remdups (map fst df))"
  have d: "distinct ?ks" by simp
  have s: "set ?ks = fst ` set df" by simp
  have "mset (concat (map snd (groupby_keywords df)))
        = sum_list (map (\<lambda>k. mset (get_euroscivoc_keywords k df)) ?ks)"
    by (simp add: groupby_keywords_def get_euroscivoc_keywords_def mset_concat comp_def)
  also have "\<dots> = (\<Sum>k\<in>set ?ks. mset (get_euroscivoc_keywords k df))"
    using d by (simp only: sum.distinct_set_conv_list)
  also have "\<dots> = mset (map snd df)"
    unfolding s by (rule sum_keywords) auto
  finally show ?thesis .
qed

text \<open>
  Claim C9. For an identifier that no entry carries the aggregator returns the empty
  list, and the lists returned for the distinct identifiers of the table, taken
  together as a multiset, are the keywords of the table: no entry is dropped and none
  is counted twice. The grouping of the main program holds the same lists, one per
  identifier.
\<close>

theorem aggregator_partition:
  "(project_id \<notin> fst ` set df \<longrightarrow> get_euroscivoc_keywords project_id df = [])
   \<and> (\<Sum>k\<in>fst ` set df. mset (get_euroscivoc_keywords k df)) = mset (map snd df)
   \<and> mset (concat (map snd (groupby_keywords df))) = mset (map snd df)
   \<and> distinct (map fst (groupby_keywords df))
   \<and> map_of (groupby_keywords df) k =
       (if k \<in> fst ` set df then Some (get_euroscivoc_keywords k df) else None)"
  using no_match_empty [of project_id df] sum_keywords [of "fst ` set df" df]
    groupby_union [of df] groupby_lookup [of df k]
  by (simp add: groupby_keys)

theorem aggregator_partition_witness:
  "''P3'' \<notin> fst ` set [(''P1'', ''Climate''), (''P2'', ''Soil''), (''P1'', ''Water'')]
   \<and> get_euroscivoc_keywords ''P3'' [(''P1'', ''Climate''), (''P2'', ''Soil''), (''P1'', ''Water'')] = []
   \<and> (\<Sum>k\<in>fst ` set [(''P1'', ''Climate''), (''P2'', ''Soil''), (''P1'', ''Water'')].
         mset (get_euroscivoc_keywords k [(''P1'', ''Climate''), (''P2'', ''Soil''), (''P1'', ''Water'')]))
       = {#''Climate'', ''Soil'', ''Water''#}
   \<and> map_of (groupby_keywords [(''P1'', ''Climate''), (''P2'', ''Soil''), (''P1'', ''Water'')]) ''P1''
       = Some [''Climate'', ''Water'']"
  using aggregator_partition [of "''P3''" "[(''P1'', ''Climate''), (''P2'', ''Soil''), (''P1'', ''Water'')]" "''P1''"]
  by (simp add: get_euroscivoc_keywords_def)

section \<open>Properties of the Remote Keyword Fetcher\<close>

lemma loop3:
  "get_cordis_keywords net =
     (if \<not> failed (net 0) then (after_loop (Some (attempt_response (net 0))), 1)
      else if \<not> failed (net 1) then (after_loop (Some (attempt_response (net 1))), 2)
      else (after_loop (Some (attempt_response (net 2))), 3))"
  by (simp add: get_cordis_keywords_def failed_def numeral_3_eq_3 numeral_2_eq_2 Let_def)

lemma first_success:
  assumes "k < 3" "\<forall>i<k. failed (net i)" "\<not> failed (net k)"
  shows "get_cordis_keywords net = (after_loop (Some (attempt_response (net k))), Suc k)"
proof -
  from assms(1) consider "k = 0" | "k = 1" | "k = 2" by linarith
  then show ?thesis
  proof cases
    case 1 with assms(3) show ?thesis by (simp add: loop3)
  next
    case 2 with assms(2,3) show ?thesis by (simp add: loop3)
  next
    case 3
    with assms(2) have "failed (net 0)" "failed (net 1)" by simp_all
    with 3 assms(3) show ?thesis by (simp add: loop3 numeral_3_eq_3)
  qed
qed


lemma failed_iff:
  "failed a = (case a of Raises \<Rightarrow> True
               | Returns res \<Rightarrow> 400 \<le> status_code res \<and> status_code res < 600)"
  by (simp add: failed_def ok_def attempt_response_def split: attempt.splits)


lemma get_cordis_keywords_errors:
  "fst (get_cordis_keywords net) = Inl e \<Longrightarrow> e = KeyError"
  by (auto simp: loop3 after_loop_def split: if_splits option.splits)



text \<open>
  Claim C5, as amended. The loop stops at the first attempt whose response is \<^verbatim>\<open>ok\<close>,
  and \<^verbatim>\<open>ok\<close> means a status outside 400 to 599: an attempt fails exactly when it
  raises or returns a status from 400 to 599. So the number of requests is 1, 2 or 3
  according to the first attempt that does not fail, and it is 3 when all fail. A
  status of the 2xx class always stops the loop.
\<close>

theorem retry_stops_at_first_ok:
  "snd (get_cordis_keywords net)
     = (if \<not> failed (net 0) then 1 else if \<not> failed (net 1) then 2 else 3)
   \<and> failed a = (case a of Raises \<Rightarrow> True
                 | Returns res \<Rightarrow> 400 \<le> status_code res \<and> status_code res < 600)
   \<and> (is_2xx (status_code res) \<longrightarrow> \<not> failed (Returns res))"
  using failed_iff [of a] failed_iff [of "Returns res"]
  by (simp add: loop3 is_2xx_def)

theorem retry_stops_at_first_ok_witness:
  "is_2xx 200 \<and> \<not> failed (Returns \<lparr>status_code = 200, page = []\<rparr>)
   \<and> snd (get_cordis_keywords (\<lambda>i. if i = 0 then Raises else Returns \<lparr>status_code = 200, page = []\<rparr>)) = 2
   \<and> snd (get_cordis_keywords (\<lambda>i. Returns \<lparr>status_code = 404, page = []\<rparr>)) = 3
   \<and> snd (get_cordis_keywords (\<lambda>i. Returns \<lparr>status_code = 304, page = []\<rparr>)) = 1"
  using retry_stops_at_first_ok [of "\<lambda>i. if i = 0 then Raises else Returns \<lparr>status_code = 200, page = []\<rparr>" Raises "\<lparr>status_code = 200, page = []\<rparr>"]
    retry_stops_at_first_ok [of "\<lambda>i. Returns \<lparr>status_code = 404, page = []\<rparr>" "Returns \<lparr>status_code = 404, page = []\<rparr>" "\<lparr>status_code = 200, page = []\<rparr>"]
    retry_stops_at_first_ok [of "\<lambda>i. Returns \<lparr>status_code = 304, page = []\<rparr>" "Returns \<lparr>status_code = 304, page = []\<rparr>" "\<lparr>status_code = 200, page = []\<rparr>"]
  by (simp add: is_2xx_def)

text \<open>
  Claim C5, as stated, fails: the status 304 is not of the 2xx class, and the loop
  stops at the first attempt that returns it.
\<close>

theorem retry_2xx_counterexample:
  "\<not> is_2xx 304 \<and> snd (get_cordis_keywords not_modified_net) = 1"
  by (simp add: is_2xx_def loop3 failed_def attempt_response_def ok_def not_modified_net_def)

text \<open>
  Claim C10. The fetcher is not total over successful responses: when the first
  attempt that does not fail returns a 2xx response whose page has a keywords tag
  without the \<^verbatim>\<open>content\<close> attribute, the fetcher raises KeyError, and returns neither a
  keyword list nor a sentinel.
\<close>

theorem missing_content_raises:
  "k < 3 \<and> (\<forall>i<k. failed (net i)) \<and> net k = Returns res \<and> is_2xx (status_code res)
     \<and> find_keywords_meta (page res) = Some m \<and> attrs m ''content'' = None
   \<longrightarrow> get_cordis_keywords net = (Inl KeyError, Suc k)"
proof
  assume a: "k < 3 \<and> (\<forall>i<k. failed (net i)) \<and> net k = Returns res \<and> is_2xx (status_code res)
     \<and> find_keywords_meta (page res) = Some m \<and> attrs m ''content'' = None"
  then have o: "ok res" by (simp add: is_2xx_def ok_def)
  with a have "\<not> failed (net k)" by (simp add: failed_def attempt_response_def)
  with a have "get_cordis_keywords net = (after_loop (Some (attempt_response (net k))), Suc k)"
    by (intro first_success) simp_all
  with a o show "get_cordis_keywords net = (Inl KeyError, Suc k)"
    by (simp add: after_loop_def attempt_response_def)
qed

theorem missing_content_raises_witness:
  "(1::nat) < 3
   \<and> failed Raises
   \<and> is_2xx 200
   \<and> find_keywords_meta [\<lparr>tag = ''meta'', attrs = [''name'' \<mapsto> ''keywords'']\<rparr>]
       = Some \<lparr>tag = ''meta'', attrs = [''name'' \<mapsto> ''keywords'']\<rparr>
   \<and> attrs \<lparr>tag = ''meta'', attrs = [''name'' \<mapsto> ''keywords'']\<rparr> ''content'' = None
   \<and> get_cordis_keywords
        (\<lambda>i. if i < 1 then Raises
              else Returns \<lparr>status_code = 200,
                     page = [\<lparr>tag = ''meta'', attrs = [''name'' \<mapsto> ''keywords'']\<rparr>]\<rparr>)
       = (Inl KeyError, 2)"
proof -
  let ?m = "\<lparr>tag = ''meta'', attrs = [''name'' \<mapsto> ''keywords'']\<rparr>"
  let ?r = "\<lparr>status_code = 200, page = [?m]\<rparr>"
  have f: "failed Raises" "is_2xx 200"
    by (simp_all add: failed_def attempt_response_def ok_def is_2xx_def)
  have m: "find_keywords_meta [?m] = Some ?m" "attrs ?m ''content'' = None"
    by (simp_all add: find_keywords_meta_def)
  show ?thesis
    using missing_content_raises [of 1 "\<lambda>i. if i < 1 then Raises else Returns ?r" ?r ?m] f m
    by simp
qed

text \<open>
  Claim C2, on the code. For the keywords \<^verbatim>\<open>Health, HORIZON-test, AI, Health\<close> the
  fetcher returns a list whose elements are \<^verbatim>\<open>Health\<close>, \<^verbatim>\<open>HORIZON-test\<close> and \<^verbatim>\<open>AI\<close>:
  the entry \<^verbatim>\<open> HORIZON-test\<close> is tested before it is trimmed, and with its leading
  space it does not start with \<^verbatim>\<open>HORIZON\<close>. In the same way an entry of spaces only
  is kept and trimmed to the empty string.
\<close>

theorem horizon_entry_survives:
  "get_cordis_keywords example_keywords_net
     = (Inr (PList (parse_keywords ''Health, HORIZON-test, AI, Health'')), 1)
   \<and> set (parse_keywords ''Health, HORIZON-test, AI, Health'')
       = {''Health'', ''HORIZON-test'', ''AI''}
   \<and> parse_keywords ''AI, '' = [''AI'', [] ]"
  by (simp add: loop3 failed_def attempt_response_def ok_def after_loop_def find_keywords_meta_def
      parse_keywords_def startswith_def strip_def is_space_def insert_commute
      example_keywords_net_def)

section \<open>Properties of the Value Normalizer\<close>

lemma py_float_error: "py_float s = Inl e \<Longrightarrow> e = ValueError"
  by (auto simp: py_float_def split: if_splits option.splits)

lemma float_thousands: "py_float ''1.234.56'' = Inl ValueError"
  by (simp add: py_float_def float_strip_def float_space_def parse_number_def split_sign_def
      to_lower_def is_digit_def parse_exponent_def)

lemma float_decimal: "py_float ''1234.56'' = Inr (Finite (123456 / 100))"
  by (simp add: py_float_def float_strip_def float_space_def parse_number_def split_sign_def
      to_lower_def is_digit_def parse_exponent_def nat_of_digits_def digit_val_def scale10_def)

lemma float_garbage: "py_float ''n/a'' = Inl ValueError"
  by (simp add: py_float_def float_strip_def float_space_def parse_number_def split_sign_def
      to_lower_def is_digit_def parse_exponent_def)

lemma convert_thousands: "convert_to_float (Text ''1.234,56'') = Inr (PStr ''1.234,56'')"
  by (simp add: convert_to_float_def isna_def py_str_def replace_chr_def as_val_def float_thousands)

lemma cluster_example: "get_cluster ''HORIZON-CL1-01-02'' = Inr ''HORIZON-CL1''"
  by (simp add: get_cluster_def startswith_def py_index_def)

text \<open>
  Claim C6. The normalizer returns None for a missing cell; a float when the text of
  the cell, with commas replaced by points, is accepted by \<^verbatim>\<open>float\<close>; and the cell
  itself when \<^verbatim>\<open>float\<close> rejects it. It never raises: for every string it returns a
  float or the string.
\<close>

theorem convert_to_float_contract:
  "(isna val \<longrightarrow> convert_to_float val = Inr PNone)
   \<and> (\<not> isna val \<and> py_float (replace_chr CHR '','' CHR ''.'' (py_str val)) = Inr f
        \<longrightarrow> convert_to_float val = Inr (PFloat f))
   \<and> (\<not> isna val \<and> py_float (replace_chr CHR '','' CHR ''.'' (py_str val)) = Inl e
        \<longrightarrow> convert_to_float val = Inr (as_val val))
   \<and> ((\<exists>x. convert_to_float (Text s) = Inr (PFloat x)) \<or> convert_to_float (Text s) = Inr (PStr s))
   \<and> isna val = (val = Missing)"
proof (intro conjI impI)
  assume a: "\<not> isna val \<and> py_float (replace_chr CHR '','' CHR ''.'' (py_str val)) = Inl e"
  then have "e = ValueError" using py_float_error by blast
  with a show "convert_to_float val = Inr (as_val val)"
    by (simp add: convert_to_float_def)
next
  show "(\<exists>x. convert_to_float (Text s) = Inr (PFloat x)) \<or> convert_to_float (Text s) = Inr (PStr s)"
  proof (cases "py_float (replace_chr CHR '','' CHR ''.'' s)")
    case (Inl e)
    then have "e = ValueError" by (simp add: py_float_error)
    with Inl show ?thesis by (simp add: convert_to_float_def isna_def py_str_def as_val_def)
  next
    case (Inr x)
    then show ?thesis by (simp add: convert_to_float_def isna_def py_str_def)
  qed
qed (simp_all add: convert_to_float_def isna_def split: cell.splits)

theorem convert_to_float_contract_witness:
  "isna Missing \<and> convert_to_float Missing = Inr PNone
   \<and> \<not> isna (Text ''1234,56'')
   \<and> py_float (replace_chr CHR '','' CHR ''.'' (py_str (Text ''1234,56''))) = Inr (Finite (123456 / 100))
   \<and> convert_to_float (Text ''1234,56'') = Inr (PFloat (Finite (123456 / 100)))
   \<and> \<not> isna (Text ''n/a'')
   \<and> py_float (replace_chr CHR '','' CHR ''.'' (py_str (Text ''n/a''))) = Inl ValueError
   \<and> convert_to_float (Text ''n/a'') = Inr (PStr ''n/a'')"
proof -
  have a: "replace_chr CHR '','' CHR ''.'' (py_str (Text ''1234,56'')) = ''1234.56''"
    "replace_chr CHR '','' CHR ''.'' (py_str (Text ''n/a'')) = ''n/a''"
    by (simp_all add: replace_chr_def py_str_def)
  have n: "isna Missing" "\<not> isna (Text ''1234,56'')" "\<not> isna (Text ''n/a'')"
    by (simp_all add: isna_def)
  have c1: "convert_to_float Missing = Inr PNone"
    using convert_to_float_contract [of Missing] n by simp
  have c2: "convert_to_float (Text ''1234,56'') = Inr (PFloat (Finite (123456 / 100)))"
    using convert_to_float_contract [of "Text ''1234,56''" "Finite (123456 / 100)"] n a float_decimal
    by simp
  have c3: "convert_to_float (Text ''n/a'') = Inr (PStr ''n/a'')"
    using convert_to_float_contract [of "Text ''n/a''" _ ValueError] n a float_garbage
    by (simp add: as_val_def)
  from a n c1 c2 c3 float_decimal float_garbage show ?thesis by (simp only: simp_thms)
qed

section \<open>Properties of the Enrichment Orchestrator\<close>

text \<open>
  Claim C1, as amended. On the example, run without a cluster filter, the output is
  one row: the identifier P1, the contribution as the unchanged string
  \<^verbatim>\<open>1.234,56\<close> (with the comma replaced it is \<^verbatim>\<open>1.234.56\<close>, which \<^verbatim>\<open>float\<close> rejects),
  the cluster \<^verbatim>\<open>HORIZON-CL1\<close>, the local keywords \<^verbatim>\<open>Climate\<close> and the remote
  keywords \<^verbatim>\<open>Adaptation\<close>.
\<close>

theorem end_to_end_unfiltered:
  "enrich All example_project_df example_euroscivoc_df example_fetch
       = Inr [\<lparr>row_id = ''P1'', row_topics = ''HORIZON-CL1-01-02'',
                row_contribution = PStr ''1.234,56'', cluster = ''HORIZON-CL1'',
                euroscivoc_keywords = Some [''Climate''],
                cordis_keywords = PList [''Adaptation'']\<rparr>]"
  by (simp add: enrich_def example_project_df_def example_euroscivoc_df_def
      example_fetch_def convert_thousands cluster_example filter_clusters_def groupby_keywords_def)

text \<open>
  Claim C1, as stated, fails. The option \<^verbatim>\<open>-c 1\<close> gives the filter \<^verbatim>\<open>CL1\<close>; the
  output for it is not the row of the claim, and the contribution \<^verbatim>\<open>1.234,56\<close> is
  returned as a string, not as the number 1234.56.
\<close>

theorem end_to_end_counterexample:
  "parse_clusters ''1'' = Inr (Only [''CL1''])
   \<and> enrich (Only [''CL1'']) example_project_df example_euroscivoc_df example_fetch
       \<noteq> Inr [\<lparr>row_id = ''P1'', row_topics = ''HORIZON-CL1-01-02'',
                row_contribution = PFloat (Finite (123456 / 100)), cluster = ''HORIZON-CL1'',
                euroscivoc_keywords = Some [''Climate''],
                cordis_keywords = PList [''Adaptation'']\<rparr>]
   \<and> convert_to_float (Text ''1.234,56'') = Inr (PStr ''1.234,56'')"
  by (simp add: parse_clusters_def enrich_def example_project_df_def example_euroscivoc_df_def
      example_fetch_def convert_thousands cluster_example filter_clusters_def)

end
